theory Spec2Isabelle
  imports Complex_Main
begin

section \<open>Exceptions and data frames\<close>

text \<open>
  The notebook \<^verbatim>\<open>automated-ml.ipynb\<close> is a linear script of calls into pandas,
  scikit-learn and the Azure ML SDK. An exception is a value: \<open>KeyError\<close> is what
  pandas raises for column labels a frame does not have, \<open>LibraryError\<close> stands for
  whatever else a library call raises.
\<close>

datatype error = KeyError "string list" | LibraryError string

text \<open>
  A data frame is its columns in order, each a label with its values. Indexing a frame
  with a label, \<^verbatim>\<open>df['target']\<close>, gives the column as a series (a frame, when several
  columns carry the label) and raises \<open>KeyError\<close> when no column has it.
  \<^verbatim>\<open>df.drop(labels, axis=1)\<close> gives a new frame without the columns so labelled and
  raises \<open>KeyError\<close> when a label is missing.
\<close>

type_synonym 'a dataframe = "(string \<times> 'a list) list"

datatype 'a selection = Series "'a list" | Frame "'a dataframe"

definition getitem :: "'a dataframe \<Rightarrow> string \<Rightarrow> error + 'a selection" where
  "getitem df label =
     (case filter (\<lambda>c. fst c = label) df of
        [] \<Rightarrow> Inl (KeyError [label])
      | [c] \<Rightarrow> Inr (Series (snd c))
      | c # d # cs \<Rightarrow> Inr (Frame (c # d # cs)))"

definition drop_columns :: "'a dataframe \<Rightarrow> string list \<Rightarrow> error + 'a dataframe" where
  "drop_columns df labels =
     (case filter (\<lambda>l. l \<notin> set (map fst df)) labels of
        [] \<Rightarrow> Inr (filter (\<lambda>c. fst c \<notin> set labels) df)
      | l # ls \<Rightarrow> Inl (KeyError (l # ls)))"

text \<open>A Python dict is an association list in insertion order, which is its iteration order.\<close>

type_synonym 'v dict = "(string \<times> 'v) list"

definition dict_get :: "'v dict \<Rightarrow> string \<Rightarrow> error + 'v" where
  "dict_get d k = (case map_of d k of None \<Rightarrow> Inl (KeyError [k]) | Some v \<Rightarrow> Inr v)"

section \<open>The libraries\<close>

text \<open>
  The fitted model is any object with a \<^verbatim>\<open>predict\<close> method; the four metric
  functions and \<^verbatim>\<open>train_test_split\<close> are scikit-learn's. Their code is not the
  notebook's: they are parameters, and each call either returns or raises.
  \<open>'a\<close> is the type of a cell of a frame, \<open>'p\<close> of a vector of predictions, \<open>'v\<close> of a
  metric value.
\<close>

record ('a, 'p) model =
  predict :: "'a dataframe \<Rightarrow> error + 'p"

record ('a, 'p, 'v) sklearn =
  train_test_split :: "'a dataframe \<Rightarrow> rat \<Rightarrow> nat \<Rightarrow> error + ('a dataframe \<times> 'a dataframe)"
  roc_auc_score :: "'a selection \<Rightarrow> 'p \<Rightarrow> error + 'v"
  accuracy_score :: "'a selection \<Rightarrow> 'p \<Rightarrow> error + 'v"
  recall_score :: "'a selection \<Rightarrow> 'p \<Rightarrow> error + 'v"
  f1_score :: "'a selection \<Rightarrow> 'p \<Rightarrow> error + 'v"

text \<open>A raised exception ends the computation: the rest runs only on a returned value.\<close>

definition then_do :: "error + 'x \<Rightarrow> ('x \<Rightarrow> error + 'y) \<Rightarrow> error + 'y" where
  "then_do r k = (case r of Inl e \<Rightarrow> Inl e | Inr x \<Rightarrow> k x)"

section \<open>\<^verbatim>\<open>test_model\<close>\<close>

text \<open>
  \<^verbatim>\<open>
  def test_model(fitted_model, test_ds):
      y = test_ds['target']
      X = test_ds.drop(['target'], axis=1)
      y_pred = fitted_model.predict(X)
      return {
          'AUC': roc_auc_score(y, y_pred),
          'Accuracy': accuracy_score(y, y_pred),
          'Recall': recall_score(y, y_pred),
          'F1': f1_score(y, y_pred),
      }
  \<close>
  The entries of the dict display are evaluated from the first to the last.
\<close>

definition test_model ::
  "('a, 'p, 'v) sklearn \<Rightarrow> ('a, 'p) model \<Rightarrow> 'a dataframe \<Rightarrow> error + 'v dict" where
  "test_model sk fitted_model test_ds =
     then_do (getitem test_ds ''target'') (\<lambda>y.
     then_do (drop_columns test_ds [''target'']) (\<lambda>X.
     then_do (predict fitted_model X) (\<lambda>y_pred.
     then_do (roc_auc_score sk y y_pred) (\<lambda>auc.
     then_do (accuracy_score sk y y_pred) (\<lambda>accuracy.
     then_do (recall_score sk y y_pred) (\<lambda>recall.
     then_do (f1_score sk y y_pred) (\<lambda>f1.
     Inr [(''AUC'', auc), (''Accuracy'', accuracy), (''Recall'', recall), (''F1'', f1)])))))))"

section \<open>The Azure ML SDK\<close>

text \<open>
  A workspace is read through four attributes. The other SDK objects (experiment,
  configuration, run, best run) are opaque: \<open>'ex\<close>, \<open>'cfg\<close>, \<open>'run\<close>, \<open>'brun\<close>.
  \<open>automl_settings\<close> are the keyword arguments of the \<^verbatim>\<open>AutoMLConfig\<close> constructor.
\<close>

record workspace =
  name :: string
  resource_group :: string
  location :: string
  subscription_id :: string

record 'a automl_settings =
  name :: string
  task :: string
  training_data :: "'a dataframe"
  validation_data :: "'a dataframe"
  label_column_name :: string
  iterations :: nat
  primary_metric :: string
  max_concurrent_iterations :: nat
  featurization :: string
  model_explainability :: bool

record ('ex, 'cfg, 'run, 'brun, 'a, 'p, 'v) azureml =
  from_config :: "string \<Rightarrow> error + workspace"
  AutoMLConfig :: "'a automl_settings \<Rightarrow> error + 'cfg"
  Experiment :: "workspace \<Rightarrow> string \<Rightarrow> error + 'ex"
  submit :: "'ex \<Rightarrow> 'cfg \<Rightarrow> error + 'run"
  wait_for_completion :: "'run \<Rightarrow> bool \<Rightarrow> error + unit"
  RunDetails_show :: "'run \<Rightarrow> error + unit"
  get_output :: "'run \<Rightarrow> error + ('brun \<times> ('a, 'p) model)"
  get_metrics :: "'brun \<Rightarrow> error + 'v dict"

record 'a pandas =
  read_csv :: "string \<Rightarrow> error + 'a dataframe"

section \<open>Running the notebook\<close>

text \<open>
  A session records the library calls of the notebook in the order they were made, each
  with its outcome, and the text the notebook's own \<^verbatim>\<open>print\<close> statements wrote.
\<close>

datatype ('a, 'run) call =
    Call_from_config string
  | Call_read_csv string
  | Call_train_test_split "'a dataframe" rat nat
  | Call_AutoMLConfig "'a automl_settings"
  | Call_Experiment string
  | Call_submit
  | Call_wait_for_completion 'run bool
  | Call_RunDetails_show 'run
  | Call_get_output 'run
  | Call_get_metrics
  | Call_test_model "'a dataframe"

datatype outcome = Returned | Raised error

record ('a, 'run) session =
  calls :: "(('a, 'run) call \<times> outcome) list"
  stdout :: string

definition invoke ::
  "('a, 'run) call \<Rightarrow> error + 'x \<Rightarrow> ('a, 'run) session \<Rightarrow> ('a, 'run) session \<times> (error + 'x)" where
  "invoke c r s =
     (s\<lparr>calls := calls s @ [(c, case r of Inl e \<Rightarrow> Raised e | Inr _ \<Rightarrow> Returned)]\<rparr>, r)"

definition print :: "string \<Rightarrow> ('a, 'run) session \<Rightarrow> ('a, 'run) session \<times> (error + unit)" where
  "print txt s = (s\<lparr>stdout := stdout s @ txt @ [CHR 0x0A]\<rparr>, Inr ())"

definition result :: "'x \<Rightarrow> 's \<Rightarrow> 's \<times> (error + 'x)" where
  "result x s = (s, Inr x)"

definition seq ::
  "('s \<Rightarrow> 's \<times> (error + 'x)) \<Rightarrow> ('x \<Rightarrow> 's \<Rightarrow> 's \<times> (error + 'y)) \<Rightarrow> 's \<Rightarrow> 's \<times> (error + 'y)" where
  "seq m k s = (case m s of (s', Inl e) \<Rightarrow> (s', Inl e) | (s', Inr x) \<Rightarrow> k x s')"

text \<open>
  \<^verbatim>\<open>
  for metric_name in best_run_metrics:
      print(f'{metric_name}: {best_run_metrics[metric_name]}')
  \<close>
  The loop runs over the keys of the dict and looks each one up; \<open>str\<close> is Python's
  formatting of a value in an f-string.
\<close>

primrec print_items ::
  "('v \<Rightarrow> string) \<Rightarrow> 'v dict \<Rightarrow> string list \<Rightarrow> ('a, 'run) session \<Rightarrow> ('a, 'run) session \<times> (error + unit)" where
  "print_items str d [] = result ()"
| "print_items str d (k # ks) =
     seq (\<lambda>s. (s, dict_get d k)) (\<lambda>v.
     seq (print (k @ '': '' @ str v)) (\<lambda>_.
     print_items str d ks))"

definition SPLIT_SEED :: nat where
  "SPLIT_SEED = 42"

definition SPLIT_PERCENTAGE :: rat where
  "SPLIT_PERCENTAGE = 7 / 10"

definition DATASET_PATH :: string where
  "DATASET_PATH = ''../../dataset/uci_dataset.csv''"

text \<open>The keyword arguments of the \<^verbatim>\<open>AutoMLConfig(...)\<close> call.\<close>

definition automl_config_settings :: "'a dataframe \<Rightarrow> 'a dataframe \<Rightarrow> 'a automl_settings" where
  "automl_config_settings train_ds test_ds =
     \<lparr>name = ''Automated ML Experiment'',
      task = ''classification'',
      training_data = train_ds,
      validation_data = test_ds,
      label_column_name = ''target'',
      iterations = 3,
      primary_metric = ''AUC_weighted'',
      max_concurrent_iterations = 3,
      featurization = ''auto'',
      model_explainability = True\<rparr>"

text \<open>The global variables of the notebook once every cell has run.\<close>

record ('ex, 'cfg, 'run, 'brun, 'a, 'p, 'v) globals =
  ws :: workspace
  df :: "'a dataframe"
  train_ds :: "'a dataframe"
  test_ds :: "'a dataframe"
  automl_config :: 'cfg
  automl_experiment :: 'ex
  automl_run :: 'run
  best_run :: 'brun
  fitted_model :: "('a, 'p) model"
  best_run_metrics :: "'v dict"
  local_metrics :: "'v dict"

text \<open>
  The code cells of the notebook, run once from the first to the last; an exception
  ends the run, since no cell catches one. The cell that defines
  \<^verbatim>\<open>test_model\<close> only binds the name; the imports and the warnings filter are left
  out. \<^verbatim>\<open>print(a, b, c, d, sep='\n')\<close> writes the four values with a line feed between
  them and one at the end.
\<close>

definition notebook ::
  "'a pandas \<Rightarrow> ('a, 'p, 'v) sklearn \<Rightarrow> ('ex, 'cfg, 'run, 'brun, 'a, 'p, 'v) azureml \<Rightarrow>
   ('v \<Rightarrow> string) \<Rightarrow> ('a, 'run) session \<Rightarrow>
   ('a, 'run) session \<times> (error + ('ex, 'cfg, 'run, 'brun, 'a, 'p, 'v) globals)" where
  "notebook pd sk az str =
     seq (invoke (Call_from_config ''../notebooks-settings/config.json'')
            (from_config az ''../notebooks-settings/config.json'')) (\<lambda>ws.
     seq (print (workspace.name ws @ [CHR 0x0A] @ resource_group ws @ [CHR 0x0A] @
            location ws @ [CHR 0x0A] @ subscription_id ws)) (\<lambda>_.
     seq (invoke (Call_read_csv DATASET_PATH) (read_csv pd DATASET_PATH)) (\<lambda>df.
     seq (invoke (Call_train_test_split df SPLIT_PERCENTAGE SPLIT_SEED)
            (train_test_split sk df SPLIT_PERCENTAGE SPLIT_SEED)) (\<lambda>(train_ds, test_ds).
     seq (invoke (Call_AutoMLConfig (automl_config_settings train_ds test_ds))
            (AutoMLConfig az (automl_config_settings train_ds test_ds))) (\<lambda>automl_config.
     seq (invoke (Call_Experiment ''automl-classification'')
            (Experiment az ws ''automl-classification'')) (\<lambda>automl_experiment.
     seq (invoke Call_submit (submit az automl_experiment automl_config)) (\<lambda>automl_run.
     seq (invoke (Call_wait_for_completion automl_run True)
            (wait_for_completion az automl_run True)) (\<lambda>_.
     seq (invoke (Call_RunDetails_show automl_run) (RunDetails_show az automl_run)) (\<lambda>_.
     seq (invoke (Call_get_output automl_run) (get_output az automl_run)) (\<lambda>(best_run, fitted_model).
     seq (invoke Call_get_metrics (get_metrics az best_run)) (\<lambda>best_run_metrics.
     seq (invoke (Call_test_model test_ds) (test_model sk fitted_model test_ds)) (\<lambda>local_metrics.
     seq (print ''AutoML metrics'') (\<lambda>_.
     seq (print_items str best_run_metrics (map fst best_run_metrics)) (\<lambda>_.
     seq (print ([CHR 0x0A] @ ''Local test metrics'')) (\<lambda>_.
     seq (print_items str local_metrics (map fst local_metrics)) (\<lambda>_.
     result \<lparr>ws = ws, df = df, train_ds = train_ds, test_ds = test_ds,
       automl_config = automl_config, automl_experiment = automl_experiment,
       automl_run = automl_run, best_run = best_run, fitted_model = fitted_model,
       best_run_metrics = best_run_metrics,
       local_metrics = local_metrics\<rparr>))))))))))))))))"

definition fresh :: "('a, 'run) session" where
  "fresh = \<lparr>calls = [], stdout = []\<rparr>"

text \<open>
  The order of the calls to one run: \<open>waited_before_output finished cs\<close> holds when every
  \<^verbatim>\<open>get_output\<close> in \<open>cs\<close> is on a run in \<open>finished\<close> or on one that an earlier
  \<^verbatim>\<open>wait_for_completion(show_output=True)\<close> in \<open>cs\<close> returned for.
\<close>

fun waited_before_output :: "'run list \<Rightarrow> (('a, 'run) call \<times> outcome) list \<Rightarrow> bool" where
  "waited_before_output finished [] = True"
| "waited_before_output finished ((Call_wait_for_completion r True, Returned) # cs) =
     waited_before_output (r # finished) cs"
| "waited_before_output finished ((Call_get_output r, out) # cs) =
     (r \<in> set finished \<and> waited_before_output finished cs)"
| "waited_before_output finished (c # cs) = waited_before_output finished cs"

text \<open>The line that the print loops write for one entry of a dict: name, colon, value.\<close>

definition item_line :: "('v \<Rightarrow> string) \<Rightarrow> string \<times> 'v \<Rightarrow> string" where
  "item_line str kv = fst kv @ '': '' @ str (snd kv) @ [CHR 0x0A]"

section \<open>A stand-in library for concrete runs\<close>

text \<open>
  Concrete values for the parameters, to run the definitions on: cells are integers,
  predictions are lists of labels, metric values are percentages, SDK objects are
  numbers. They are examples of libraries, not models of scikit-learn or of the SDK:
  the theorems below hold for every library. \<open>percent\<close> raises on an empty
  denominator, as a metric that is undefined on its input does.
\<close>

definition percent :: "nat \<Rightarrow> nat \<Rightarrow> error + nat" where
  "percent k n = (if n = 0 then Inl (LibraryError ''ValueError'') else Inr (100 * k div n))"

definition labelled :: "int selection \<Rightarrow> int list \<Rightarrow> int \<Rightarrow> int \<Rightarrow> nat" where
  "labelled y y_pred a b =
     (case y of
        Series ys \<Rightarrow> length (filter (\<lambda>yp. yp = (a, b)) (zip ys y_pred))
      | Frame _ \<Rightarrow> 0)"

definition demo_sklearn :: "(int, int list, nat) sklearn" where
  "demo_sklearn =
     \<lparr>train_test_split = (\<lambda>frame size seed.
        if frame = [] then Inl (LibraryError ''ValueError'')
        else Inr (map (\<lambda>c. (fst c, take 1 (snd c))) frame,
                  map (\<lambda>c. (fst c, drop 1 (snd c))) frame)),
      roc_auc_score = (\<lambda>y p.
        then_do (percent (labelled y p 1 1) (labelled y p 1 1 + labelled y p 1 0)) (\<lambda>tpr.
        then_do (percent (labelled y p 0 0) (labelled y p 0 0 + labelled y p 0 1)) (\<lambda>tnr.
        Inr ((tpr + tnr) div 2)))),
      accuracy_score = (\<lambda>y p.
        percent (labelled y p 1 1 + labelled y p 0 0)
          (labelled y p 1 1 + labelled y p 0 0 + labelled y p 1 0 + labelled y p 0 1)),
      recall_score = (\<lambda>y p. percent (labelled y p 1 1) (labelled y p 1 1 + labelled y p 1 0)),
      f1_score = (\<lambda>y p.
        percent (2 * labelled y p 1 1)
          (2 * labelled y p 1 1 + labelled y p 1 0 + labelled y p 0 1))\<rparr>"

text \<open>A model that reads the column \<^verbatim>\<open>age\<close> of its input and predicts 1 above 50.\<close>

definition age_model :: "(int, int list) model" where
  "age_model =
     \<lparr>predict = (\<lambda>X.
        then_do (getitem X ''age'') (\<lambda>col.
          case col of
            Series xs \<Rightarrow> Inr (map (\<lambda>x. if 50 < x then 1 else 0) xs)
          | Frame _ \<Rightarrow> Inl (LibraryError ''ValueError'')))\<rparr>"

definition heart_frame :: "int dataframe" where
  "heart_frame =
     [(''age'', [58, 63, 37, 41, 56]),
      (''chol'', [211, 233, 250, 204, 236]),
      (''target'', [1, 1, 1, 0, 0])]"

text \<open>What the stand-in \<^verbatim>\<open>train_test_split\<close> makes of \<open>heart_frame\<close>.\<close>

definition heart_train :: "int dataframe" where
  "heart_train = [(''age'', [58]), (''chol'', [211]), (''target'', [1])]"

definition heart_test :: "int dataframe" where
  "heart_test =
     [(''age'', [63, 37, 41, 56]), (''chol'', [233, 250, 204, 236]), (''target'', [1, 1, 0, 0])]"

definition no_age_frame :: "int dataframe" where
  "no_age_frame = [(''chol'', [233, 250]), (''target'', [1, 0])]"

definition no_target_frame :: "int dataframe" where
  "no_target_frame = [(''age'', [63, 37]), (''chol'', [233, 250])]"

definition demo_pandas :: "int pandas" where
  "demo_pandas =
     \<lparr>read_csv = (\<lambda>path.
        if path = ''../../dataset/uci_dataset.csv'' then Inr heart_frame
        else Inl (LibraryError ''FileNotFoundError''))\<rparr>"

definition empty_disk :: "int pandas" where
  "empty_disk = \<lparr>read_csv = (\<lambda>path. Inl (LibraryError ''FileNotFoundError''))\<rparr>"

text \<open>A dataset without the column \<^verbatim>\<open>age\<close> that \<open>age_model\<close> reads.\<close>

definition no_age_disk :: "int pandas" where
  "no_age_disk = \<lparr>read_csv = (\<lambda>path. Inr no_age_frame)\<rparr>"

definition demo_workspace :: workspace where
  "demo_workspace =
     \<lparr>workspace.name = ''ws'', resource_group = ''rg'', location = ''westeurope'',
      subscription_id = ''0000''\<rparr>"

definition demo_azureml :: "(nat, nat, nat, nat, int, int list, nat) azureml" where
  "demo_azureml =
     \<lparr>from_config = (\<lambda>path. Inr demo_workspace),
      AutoMLConfig = (\<lambda>settings. Inr 1),
      Experiment = (\<lambda>w n. Inr 2),
      submit = (\<lambda>ex cfg. Inr 3),
      wait_for_completion = (\<lambda>r show_output. Inr ()),
      RunDetails_show = (\<lambda>r. Inr ()),
      get_output = (\<lambda>r. Inr (4, age_model)),
      get_metrics = (\<lambda>b. Inr [(''AUC_weighted'', 91), (''accuracy'', 84)])\<rparr>"

text \<open>Decimal digits of a number, for \<open>str\<close>.\<close>

fun digits :: "nat \<Rightarrow> string" where
  "digits n =
     (if n < 10 then [''0123456789'' ! n]
      else digits (n div 10) @ [''0123456789'' ! (n mod 10)])"

definition demo_session :: "(int, nat) session" where
  "demo_session =
     \<lparr>calls =
        [(Call_from_config ''../notebooks-settings/config.json'', Returned),
         (Call_read_csv ''../../dataset/uci_dataset.csv'', Returned),
         (Call_train_test_split heart_frame (7 / 10) 42, Returned),
         (Call_AutoMLConfig (automl_config_settings heart_train heart_test), Returned),
         (Call_Experiment ''automl-classification'', Returned),
         (Call_submit, Returned),
         (Call_wait_for_completion 3 True, Returned),
         (Call_RunDetails_show 3, Returned),
         (Call_get_output 3, Returned),
         (Call_get_metrics, Returned),
         (Call_test_model heart_test, Returned)],
      stdout =
        ''ws'' @ [CHR 0x0A] @ ''rg'' @ [CHR 0x0A] @ ''westeurope'' @ [CHR 0x0A] @
        ''0000'' @ [CHR 0x0A] @
        ''AutoML metrics'' @ [CHR 0x0A] @
        ''AUC_weighted: 91'' @ [CHR 0x0A] @
        ''accuracy: 84'' @ [CHR 0x0A] @
        [CHR 0x0A] @ ''Local test metrics'' @ [CHR 0x0A] @
        ''AUC: 50'' @ [CHR 0x0A] @
        ''Accuracy: 50'' @ [CHR 0x0A] @
        ''Recall: 50'' @ [CHR 0x0A] @
        ''F1: 50'' @ [CHR 0x0A]\<rparr>"

definition demo_globals :: "(nat, nat, nat, nat, int, int list, nat) globals" where
  "demo_globals =
     \<lparr>ws = demo_workspace,
      df = heart_frame,
      train_ds = heart_train,
      test_ds = heart_test,
      automl_config = 1,
      automl_experiment = 2,
      automl_run = 3,
      best_run = 4,
      fitted_model = age_model,
      best_run_metrics = [(''AUC_weighted'', 91), (''accuracy'', 84)],
      local_metrics = [(''AUC'', 50), (''Accuracy'', 50), (''Recall'', 50), (''F1'', 50)]\<rparr>"

section \<open>Column lookup and drop\<close>

lemma getitem_present:
  "label \<in> set (map fst frame) \<Longrightarrow> \<exists>y. getitem frame label = Inr y"
proof -
  assume "label \<in> set (map fst frame)"
  then have "filter (\<lambda>c. fst c = label) frame \<noteq> []"
    by (auto simp: filter_empty_conv)
  then show ?thesis
    by (auto simp: getitem_def split: list.splits)
qed


lemma drop_columns_present:
  "label \<in> set (map fst frame) \<Longrightarrow>
   drop_columns frame [label] = Inr (filter (\<lambda>c. fst c \<noteq> label) frame)"
  by (simp add: drop_columns_def)

lemma drop_columns_absent:
  "label \<notin> set (map fst frame) \<Longrightarrow> drop_columns frame [label] = Inl (KeyError [label])"
  by (simp add: drop_columns_def)

section \<open>The print loops\<close>

lemma dict_get_key: "k \<in> set (map fst d) \<Longrightarrow> dict_get d k = Inr (the (map_of d k))"
  by (auto simp: dict_get_def map_of_eq_None_iff split: option.splits)

lemma print_items_subset:
  "set ks \<subseteq> set (map fst d) \<Longrightarrow>
   print_items str d ks s =
     (s\<lparr>stdout := stdout s @ concat (map (\<lambda>k. item_line str (k, the (map_of d k))) ks)\<rparr>,
      Inr ())"
proof (induction ks arbitrary: s)
  case Nil
  then show ?case by (simp add: result_def)
next
  case (Cons k ks)
  then show ?case
    by (simp add: seq_def print_def dict_get_key item_line_def)
qed

lemma print_items_keys:
  "print_items str d (map fst d) s =
     (s\<lparr>stdout :=
          stdout s @ concat (map (\<lambda>k. item_line str (k, the (map_of d k))) (map fst d))\<rparr>,
      Inr ())"
  by (rule print_items_subset) simp

lemma lookup_own_keys:
  "distinct (map fst d) \<Longrightarrow> map (\<lambda>k. f (k, the (map_of d k))) (map fst d) = map f d"
  by (induction d) (auto simp: rev_image_eqI)

lemma lookup_own_keys_comp:
  "distinct (map fst d) \<Longrightarrow> map ((\<lambda>k. f (k, the (map_of d k))) \<circ> fst) d = map f d"
  using lookup_own_keys [of d f] by (simp add: comp_def)

section \<open>The calls of a run\<close>

lemmas run_defs =
  notebook_def seq_def invoke_def print_def result_def fresh_def print_items_keys

lemma calls_ordered: "waited_before_output [] (calls (fst (notebook pd sk az str fresh)))"
  by (simp add: run_defs split: sum.splits prod.splits)

lemma waited_before_output_sound:
  "waited_before_output finished cs \<Longrightarrow> cs = pre @ (Call_get_output r, out) # post \<Longrightarrow>
   r \<in> set finished \<or> (Call_wait_for_completion r True, Returned) \<in> set pre"
proof (induction finished cs arbitrary: pre rule: waited_before_output.induct)
  case (1 finished)
  then show ?case by simp
next
  case (2 finished r' cs)
  then show ?case by (cases pre) auto
next
  case (3 finished r' out' cs)
  then show ?case by (cases pre) auto
qed (case_tac pre; auto)+

lemma get_output_run:
  "(Call_get_output r, out) \<in> set (calls (fst (notebook pd sk az str fresh))) \<Longrightarrow>
   wait_for_completion az r True = Inr () \<and>
   (\<exists>kw cfg ex. AutoMLConfig az kw = Inr cfg \<and> submit az ex cfg = Inr r)"
  by (auto simp: run_defs split: sum.splits prod.splits)


lemma notebook_raises_iff:
  "snd (notebook pd sk az str fresh) = Inl e \<longleftrightarrow>
   (\<exists>c. (c, Raised e) \<in> set (calls (fst (notebook pd sk az str fresh))))"
  by (auto simp: run_defs split: sum.splits prod.splits)

section \<open>The stand-in library, run\<close>

lemma demo_test_model:
  "test_model demo_sklearn age_model heart_test =
   Inr [(''AUC'', 50), (''Accuracy'', 50), (''Recall'', 50), (''F1'', 50)]"
  by code_simp

lemma demo_run:
  "notebook demo_pandas demo_sklearn demo_azureml digits fresh = (demo_session, Inr demo_globals)"
  by (simp add: notebook_def seq_def invoke_def print_def result_def fresh_def
        demo_pandas_def demo_azureml_def demo_sklearn_def demo_workspace_def heart_frame_def
        DATASET_PATH_def SPLIT_SEED_def SPLIT_PERCENTAGE_def
        heart_train_def heart_test_def
        demo_test_model [unfolded demo_sklearn_def heart_test_def] dict_get_def
        demo_session_def demo_globals_def)

lemma missing_file_run:
  "notebook empty_disk demo_sklearn demo_azureml digits fresh =
   (\<lparr>calls =
       [(Call_from_config ''../notebooks-settings/config.json'', Returned),
        (Call_read_csv ''../../dataset/uci_dataset.csv'',
         Raised (LibraryError ''FileNotFoundError''))],
     stdout = ''ws'' @ [CHR 0x0A] @ ''rg'' @ [CHR 0x0A] @ ''westeurope'' @ [CHR 0x0A] @
       ''0000'' @ [CHR 0x0A]\<rparr>,
    Inl (LibraryError ''FileNotFoundError''))"
  by (simp add: notebook_def seq_def invoke_def print_def fresh_def empty_disk_def
        demo_azureml_def demo_workspace_def DATASET_PATH_def)

lemma no_age_run:
  "notebook no_age_disk demo_sklearn demo_azureml digits fresh =
   (\<lparr>calls =
       [(Call_from_config ''../notebooks-settings/config.json'', Returned),
        (Call_read_csv ''../../dataset/uci_dataset.csv'', Returned),
        (Call_train_test_split no_age_frame (7 / 10) 42, Returned),
        (Call_AutoMLConfig
           (automl_config_settings [(''chol'', [233]), (''target'', [1])]
              [(''chol'', [250]), (''target'', [0])]), Returned),
        (Call_Experiment ''automl-classification'', Returned),
        (Call_submit, Returned),
        (Call_wait_for_completion 3 True, Returned),
        (Call_RunDetails_show 3, Returned),
        (Call_get_output 3, Returned),
        (Call_get_metrics, Returned),
        (Call_test_model [(''chol'', [250]), (''target'', [0])], Raised (KeyError [''age'']))],
     stdout = ''ws'' @ [CHR 0x0A] @ ''rg'' @ [CHR 0x0A] @ ''westeurope'' @ [CHR 0x0A] @
       ''0000'' @ [CHR 0x0A]\<rparr>,
    Inl (KeyError [''age'']))"
  by (simp add: notebook_def seq_def invoke_def print_def fresh_def no_age_disk_def
        demo_azureml_def demo_sklearn_def demo_workspace_def no_age_frame_def
        DATASET_PATH_def SPLIT_SEED_def SPLIT_PERCENTAGE_def
        test_model_def then_do_def getitem_def drop_columns_def age_model_def)

section \<open>What \<^verbatim>\<open>test_model\<close> returns\<close>

text \<open>
  C1, as amended. For every fitted model and every data frame with a column labelled
  \<^verbatim>\<open>target\<close>: the lookup gives \<open>y\<close> (the series of that column, when it is the only one so
  labelled) and the drop gives \<open>X\<close>, the other columns in their order; and whenever
  \<^verbatim>\<open>predict\<close> on \<open>X\<close> and the four metric functions on \<open>y\<close> and the predictions return,
  \<^verbatim>\<open>test_model\<close> returns the dict with exactly the keys AUC, Accuracy, Recall and F1, in
  this order, bound to the values of \<^verbatim>\<open>roc_auc_score\<close>, \<^verbatim>\<open>accuracy_score\<close>,
  \<^verbatim>\<open>recall_score\<close> and \<^verbatim>\<open>f1_score\<close>.
\<close>

theorem test_model_returns_four_metrics:
  assumes "''target'' \<in> set (map fst ds)"
  shows "\<exists>y X. getitem ds ''target'' = Inr y \<and>
           (\<forall>col. filter (\<lambda>c. fst c = ''target'') ds = [(''target'', col)] \<longrightarrow> y = Series col) \<and>
           drop_columns ds [''target''] = Inr X \<and>
           X = filter (\<lambda>c. fst c \<noteq> ''target'') ds \<and>
           (\<forall>y_pred auc accuracy recall f1.
              predict m X = Inr y_pred \<and>
              roc_auc_score sk y y_pred = Inr auc \<and>
              accuracy_score sk y y_pred = Inr accuracy \<and>
              recall_score sk y y_pred = Inr recall \<and>
              f1_score sk y y_pred = Inr f1 \<longrightarrow>
              test_model sk m ds =
                Inr [(''AUC'', auc), (''Accuracy'', accuracy), (''Recall'', recall), (''F1'', f1)])"
proof -
  from assms obtain y where y: "getitem ds ''target'' = Inr y"
    using getitem_present by blast
  have col: "\<forall>col. filter (\<lambda>c. fst c = ''target'') ds = [(''target'', col)] \<longrightarrow> y = Series col"
    using y by (auto simp: getitem_def)
  have X: "drop_columns ds [''target''] = Inr (filter (\<lambda>c. fst c \<noteq> ''target'') ds)"
    using assms by (rule drop_columns_present)
  show ?thesis
    using y col X by (simp add: test_model_def then_do_def)
qed

theorem test_model_returns_four_metrics_witness:
  "''target'' \<in> set (map fst heart_frame) \<and>
   test_model demo_sklearn age_model heart_frame =
     Inr [(''AUC'', 58), (''Accuracy'', 60), (''Recall'', 66), (''F1'', 66)]"
proof -
  have h: "''target'' \<in> set (map fst heart_frame)"
    by (simp add: heart_frame_def)
  from test_model_returns_four_metrics [OF h, of age_model demo_sklearn]
  obtain y X where
    y: "\<forall>col. filter (\<lambda>c. fst c = ''target'') heart_frame = [(''target'', col)] \<longrightarrow> y = Series col"
    and X: "X = filter (\<lambda>c. fst c \<noteq> ''target'') heart_frame"
    and ret: "\<forall>y_pred auc accuracy recall f1.
      predict age_model X = Inr y_pred \<and>
      roc_auc_score demo_sklearn y y_pred = Inr auc \<and>
      accuracy_score demo_sklearn y y_pred = Inr accuracy \<and>
      recall_score demo_sklearn y y_pred = Inr recall \<and>
      f1_score demo_sklearn y y_pred = Inr f1 \<longrightarrow>
      test_model demo_sklearn age_model heart_frame =
        Inr [(''AUC'', auc), (''Accuracy'', accuracy), (''Recall'', recall), (''F1'', f1)]"
    by blast
  have y': "y = Series [1, 1, 1, 0, 0]"
    using y by (simp add: heart_frame_def)
  have X': "X = [(''age'', [58, 63, 37, 41, 56]), (''chol'', [211, 233, 250, 204, 236])]"
    using X by (simp add: heart_frame_def)
  have p: "predict age_model X = Inr [1, 1, 0, 0, 1]"
    by (simp add: X' age_model_def then_do_def getitem_def)
  have m1: "roc_auc_score demo_sklearn y [1, 1, 0, 0, 1] = Inr 58"
    by (simp add: y' demo_sklearn_def percent_def labelled_def then_do_def
          numeral_2_eq_2 [symmetric] numeral_3_eq_3 [symmetric])
  have m2: "accuracy_score demo_sklearn y [1, 1, 0, 0, 1] = Inr 60"
    by (simp add: y' demo_sklearn_def percent_def labelled_def)
  have m3: "recall_score demo_sklearn y [1, 1, 0, 0, 1] = Inr 66"
    by (simp add: y' demo_sklearn_def percent_def labelled_def numeral_3_eq_3 [symmetric])
  have m4: "f1_score demo_sklearn y [1, 1, 0, 0, 1] = Inr 66"
    by (simp add: y' demo_sklearn_def percent_def labelled_def)
  from ret p m1 m2 m3 m4
  have "test_model demo_sklearn age_model heart_frame =
      Inr [(''AUC'', 58), (''Accuracy'', 60), (''Recall'', 66), (''F1'', 66)]"
    by blast
  with h show ?thesis by simp
qed

text \<open>
  C1 as stated fails: a frame with a \<^verbatim>\<open>target\<close> column on which the model's
  \<^verbatim>\<open>predict\<close> raises (here for the column \<^verbatim>\<open>age\<close> it reads) makes \<^verbatim>\<open>test_model\<close> raise
  instead of returning a dict.
\<close>

theorem test_model_raises_with_target_column:
  "''target'' \<in> set (map fst no_age_frame) \<and>
   test_model demo_sklearn age_model no_age_frame = Inl (KeyError [''age''])"
  by (simp add: no_age_frame_def test_model_def then_do_def getitem_def drop_columns_def
        age_model_def)

section \<open>Exceptions\<close>

text \<open>
  C7. Nothing catches an exception. \<^verbatim>\<open>test_model\<close> raises \<open>e\<close> exactly when one of its
  library calls, made in order on the values the earlier ones returned, raises \<open>e\<close>; and
  the notebook ends in \<open>e\<close> exactly when one of the library calls it made raised \<open>e\<close>.
\<close>

theorem exceptions_propagate_unhandled:
  "(test_model sk m ds = Inl e \<longleftrightarrow>
     getitem ds ''target'' = Inl e \<or>
     (\<exists>y. getitem ds ''target'' = Inr y \<and>
       (drop_columns ds [''target''] = Inl e \<or>
       (\<exists>X. drop_columns ds [''target''] = Inr X \<and>
         (predict m X = Inl e \<or>
         (\<exists>y_pred. predict m X = Inr y_pred \<and>
           (roc_auc_score sk y y_pred = Inl e \<or>
           (\<exists>auc. roc_auc_score sk y y_pred = Inr auc \<and>
             (accuracy_score sk y y_pred = Inl e \<or>
             (\<exists>accuracy. accuracy_score sk y y_pred = Inr accuracy \<and>
               (recall_score sk y y_pred = Inl e \<or>
               (\<exists>recall. recall_score sk y y_pred = Inr recall \<and>
                 f1_score sk y y_pred = Inl e)))))))))))) \<and>
   (snd (notebook pd sk az str fresh) = Inl e \<longleftrightarrow>
     (\<exists>c. (c, Raised e) \<in> set (calls (fst (notebook pd sk az str fresh)))))"
proof
  show "test_model sk m ds = Inl e \<longleftrightarrow>
     getitem ds ''target'' = Inl e \<or>
     (\<exists>y. getitem ds ''target'' = Inr y \<and>
       (drop_columns ds [''target''] = Inl e \<or>
       (\<exists>X. drop_columns ds [''target''] = Inr X \<and>
         (predict m X = Inl e \<or>
         (\<exists>y_pred. predict m X = Inr y_pred \<and>
           (roc_auc_score sk y y_pred = Inl e \<or>
           (\<exists>auc. roc_auc_score sk y y_pred = Inr auc \<and>
             (accuracy_score sk y y_pred = Inl e \<or>
             (\<exists>accuracy. accuracy_score sk y y_pred = Inr accuracy \<and>
               (recall_score sk y y_pred = Inl e \<or>
               (\<exists>recall. recall_score sk y y_pred = Inr recall \<and>
                 f1_score sk y y_pred = Inl e)))))))))))"
    by (auto simp: test_model_def then_do_def split: sum.splits)
  show "snd (notebook pd sk az str fresh) = Inl e \<longleftrightarrow>
     (\<exists>c. (c, Raised e) \<in> set (calls (fst (notebook pd sk az str fresh))))"
    by (rule notebook_raises_iff)
qed

theorem exceptions_propagate_unhandled_witness:
  "test_model demo_sklearn age_model no_target_frame = Inl (KeyError [''target'']) \<and>
   snd (notebook empty_disk demo_sklearn demo_azureml digits fresh) =
     Inl (LibraryError ''FileNotFoundError'')"
proof -
  have "getitem no_target_frame ''target'' = Inl (KeyError [''target''])"
    by (simp add: no_target_frame_def getitem_def)
  moreover have "(Call_read_csv ''../../dataset/uci_dataset.csv'',
      Raised (LibraryError ''FileNotFoundError''))
    \<in> set (calls (fst (notebook empty_disk demo_sklearn demo_azureml digits fresh)))"
    by (simp add: missing_file_run)
  ultimately show ?thesis
    using exceptions_propagate_unhandled
      [of demo_sklearn age_model no_target_frame "KeyError [''target'']"]
      exceptions_propagate_unhandled
      [of demo_sklearn age_model no_target_frame "LibraryError ''FileNotFoundError''"
        empty_disk demo_azureml digits]
    by blast
qed



section \<open>The configuration and the job\<close>



text \<open>
  C5. In every run of the notebook, a call of \<^verbatim>\<open>get_output\<close> on a run \<open>r\<close> comes
  strictly after a call of \<^verbatim>\<open>wait_for_completion(show_output=True)\<close> on the same \<open>r\<close>
  that returned, and \<open>r\<close> is the run that \<^verbatim>\<open>submit\<close> returned for a configuration
  that \<^verbatim>\<open>AutoMLConfig\<close> built: no model is retrieved from a run that was not waited for.
\<close>

theorem get_output_after_wait_for_completion:
  assumes "calls (fst (notebook pd sk az str fresh)) = pre @ (Call_get_output r, out) # post"
  shows "(Call_wait_for_completion r True, Returned) \<in> set pre \<and>
         wait_for_completion az r True = Inr () \<and>
         (\<exists>kw cfg ex. AutoMLConfig az kw = Inr cfg \<and> submit az ex cfg = Inr r)"
proof -
  have "waited_before_output [] (pre @ (Call_get_output r, out) # post)"
    using calls_ordered [of pd sk az str] assms by simp
  then have "(Call_wait_for_completion r True, Returned) \<in> set pre"
    using waited_before_output_sound by fastforce
  moreover have "(Call_get_output r, out) \<in> set (calls (fst (notebook pd sk az str fresh)))"
    using assms by simp
  ultimately show ?thesis
    using get_output_run [of r out pd sk az str] by simp
qed

theorem get_output_after_wait_for_completion_witness:
  "calls (fst (notebook demo_pandas demo_sklearn demo_azureml digits fresh)) =
     take 8 (calls demo_session) @ (Call_get_output 3, Returned) # drop 9 (calls demo_session) \<and>
   (Call_wait_for_completion 3 True, Returned) \<in> set (take 8 (calls demo_session)) \<and>
   submit demo_azureml 2 1 = Inr 3"
proof -
  have h: "calls (fst (notebook demo_pandas demo_sklearn demo_azureml digits fresh)) =
     take 8 (calls demo_session) @ (Call_get_output 3, Returned) # drop 9 (calls demo_session)"
    by (simp add: demo_run demo_session_def)
  have s: "submit demo_azureml 2 1 = Inr 3"
    by (simp add: demo_azureml_def)
  show ?thesis
    using h s get_output_after_wait_for_completion [OF h] by simp
qed

section \<open>The printed metrics\<close>

text \<open>
  C6, as amended. When the notebook has run to its end (after the job was waited for,
  \<^verbatim>\<open>get_output\<close>, \<^verbatim>\<open>get_metrics\<close> and \<^verbatim>\<open>test_model\<close> returned too), what the
  notebook printed is: the four workspace attributes; the heading, then one line
  \<open>name: value\<close> for every entry of the best run's metrics, in the order of the dict;
  the second heading after an empty line, then one line for every entry of the local
  metrics, whose keys are AUC, Accuracy, Recall, F1 in this order. The keys of a dict
  are distinct.
\<close>

theorem notebook_prints_metrics:
  assumes "notebook pd sk az str fresh = (st, Inr g)"
      and "distinct (map fst (best_run_metrics g))"
  shows "stdout st =
           workspace.name (ws g) @ [CHR 0x0A] @ resource_group (ws g) @ [CHR 0x0A] @
           location (ws g) @ [CHR 0x0A] @ subscription_id (ws g) @ [CHR 0x0A] @
           ''AutoML metrics'' @ [CHR 0x0A] @
           concat (map (item_line str) (best_run_metrics g)) @
           [CHR 0x0A] @ ''Local test metrics'' @ [CHR 0x0A] @
           concat (map (item_line str) (local_metrics g)) \<and>
         get_metrics az (best_run g) = Inr (best_run_metrics g) \<and>
         test_model sk (fitted_model g) (test_ds g) = Inr (local_metrics g) \<and>
         map fst (local_metrics g) = [''AUC'', ''Accuracy'', ''Recall'', ''F1''] \<and>
         (Call_wait_for_completion (automl_run g) True, Returned) \<in> set (calls st)"
  using assms
  by (auto simp: run_defs lookup_own_keys_comp test_model_def then_do_def
        split: sum.splits prod.splits)

theorem notebook_prints_metrics_witness:
  "notebook demo_pandas demo_sklearn demo_azureml digits fresh = (demo_session, Inr demo_globals) \<and>
   distinct (map fst (best_run_metrics demo_globals)) \<and>
   stdout demo_session =
     ''ws'' @ [CHR 0x0A] @ ''rg'' @ [CHR 0x0A] @ ''westeurope'' @ [CHR 0x0A] @
     ''0000'' @ [CHR 0x0A] @
     ''AutoML metrics'' @ [CHR 0x0A] @
     concat (map (item_line digits) [(''AUC_weighted'', 91), (''accuracy'', 84)]) @
     [CHR 0x0A] @ ''Local test metrics'' @ [CHR 0x0A] @
     concat (map (item_line digits)
       [(''AUC'', 50), (''Accuracy'', 50), (''Recall'', 50), (''F1'', 50)])"
proof -
  have d: "distinct (map fst (best_run_metrics demo_globals))"
    by (simp add: demo_globals_def)
  show ?thesis
    using d demo_run notebook_prints_metrics [OF demo_run d]
    by (simp add: demo_globals_def demo_workspace_def)
qed

text \<open>
  C6 as stated fails: the job completes and the best run has metrics, but
  \<^verbatim>\<open>test_model\<close> raises in the cell before the print cell (the model reads a column
  the dataset does not have), and no metric is printed, of the best run or local.
\<close>

theorem job_completes_without_printed_metrics:
  "(Call_wait_for_completion 3 True, Returned)
     \<in> set (calls (fst (notebook no_age_disk demo_sklearn demo_azureml digits fresh))) \<and>
   (Call_get_metrics, Returned)
     \<in> set (calls (fst (notebook no_age_disk demo_sklearn demo_azureml digits fresh))) \<and>
   get_metrics demo_azureml 4 = Inr [(''AUC_weighted'', 91), (''accuracy'', 84)] \<and>
   stdout (fst (notebook no_age_disk demo_sklearn demo_azureml digits fresh)) =
     ''ws'' @ [CHR 0x0A] @ ''rg'' @ [CHR 0x0A] @ ''westeurope'' @ [CHR 0x0A] @
     ''0000'' @ [CHR 0x0A] \<and>
   snd (notebook no_age_disk demo_sklearn demo_azureml digits fresh) = Inl (KeyError [''age''])"
proof -
  have "get_metrics demo_azureml 4 = Inr [(''AUC_weighted'', 91), (''accuracy'', 84)]"
    by (simp add: demo_azureml_def)
  then show ?thesis
    by (simp add: no_age_run)
qed

section \<open>The data of the local metrics\<close>



end
